theory Spec2Isabelle
  imports Complex_Main "HOL-Library.List_Lexorder" "HOL-Library.Char_ord"
begin

section \<open>SlimMom backend: diary, daily summary and recommendations\<close>

text \<open>
  A shallow embedding of the route handlers of \<^verbatim>\<open>routes/diary.js\<close> (the second part of
  \<^verbatim>\<open>src/routes/auth.js\<close>), \<^verbatim>\<open>routes/summery.js\<close> and \<^verbatim>\<open>routes/recommendations.js\<close>
  (\<^verbatim>\<open>src/unnamed/part_001\<close>).

  Conventions of the model.
  \<^item> A JavaScript \<^verbatim>\<open>Date\<close> is its time value: an integer number of milliseconds since
    1970-01-01T00:00:00Z. The \<^verbatim>\<open>:date\<close> route parameter enters a handler as the instant
    \<^verbatim>\<open>new Date(date)\<close> denotes; \<^verbatim>\<open>"1970-01-02"\<close> is the instant \<open>86400000\<close>.
  \<^item> The local time zone of the Node process is a fixed offset \<open>tz\<close> in milliseconds
    (local time = UTC + \<open>tz\<close>); the handlers that use local time take it as a parameter.
  \<^item> JavaScript numbers are exact reals: the rounding of IEEE doubles is not modelled.
  \<^item> A MongoDB collection is the list of its documents in natural order; an ObjectId is
    a natural number, and \<open>next_id\<close> of the store is the next fresh one.
  \<^item> An HTTP status is a result: 400 is \<open>Inl InvalidInput\<close>, 404 is \<open>Inl NotFound\<close>,
    500 (the \<^verbatim>\<open>catch\<close> branch) is \<open>Inl Unexpected\<close>, 200 and 201 are \<open>Inr\<close>.
    A handler that answers with an error has saved nothing, so an error carries no store.
  \<^item> Requests are handled one after the other. The database and the catalog answer every
    query; the \<^verbatim>\<open>:date\<close> parameter denotes a date and identifiers are well-formed
    ObjectIds, so the exceptions modelled are those the handlers raise themselves.
\<close>

subsection \<open>Data model\<close>

type_synonym instant = int
type_synonym oid = nat

datatype error = InvalidInput | NotFound | Unexpected

record entry =
  entry_id :: oid
  productId :: oid
  product_weight :: real
  product_Calories :: real
  date :: instant

record diary =
  diary_id :: oid
  userId :: oid
  entries :: "entry list"

record summaryInfo_item =
  diaryId :: oid
  daily_left :: real
  daily_consumed :: real
  daily_rate :: real
  percentage :: real

record summary =
  summary_userId :: oid
  summaryInfo :: "summaryInfo_item list"

record product =
  product_id :: oid
  title :: string
  calories :: real
  groupBloodNotAllowed :: "bool option list"

record calculator_data =
  height :: real
  age :: real
  current_weight :: real
  desired_weight :: real
  blood_type :: string

record calculator =
  calculator_userId :: oid
  data :: "calculator_data list"

record store =
  diaries :: "diary list"
  summaries :: "summary list"
  calculators :: "calculator list"
  next_id :: oid

definition empty_store :: store where
  "empty_store = \<lparr>diaries = [], summaries = [], calculators = [], next_id = 0\<rparr>"

subsection \<open>Dates\<close>

text \<open>
  \<open>utc_midnight t\<close> is \<^verbatim>\<open>new Date(Date.UTC(d.getUTCFullYear(), d.getUTCMonth(), d.getUTCDate()))\<close>:
  the start of the UTC day of \<open>t\<close>. \<open>isoDate t\<close> stands for the \<^verbatim>\<open>YYYY-MM-DD\<close> part of
  \<^verbatim>\<open>toISOString()\<close>, as the number of the UTC day; two instants have the same part exactly
  when they have the same number. \<open>toDateString tz t\<close> stands for \<^verbatim>\<open>toDateString()\<close>,
  the calendar date in local time, as the number of the local day. \<open>startOfDay\<close> and
  \<open>endOfDay\<close> are the functions of date-fns: local midnight and the last millisecond of
  the local day.
\<close>

definition utc_midnight :: "instant \<Rightarrow> instant" where
  "utc_midnight t = (t div 86400000) * 86400000"

definition isoDate :: "instant \<Rightarrow> int" where
  "isoDate t = t div 86400000"

definition toDateString :: "int \<Rightarrow> instant \<Rightarrow> int" where
  "toDateString tz t = (t + tz) div 86400000"

definition startOfDay :: "int \<Rightarrow> instant \<Rightarrow> instant" where
  "startOfDay tz t = ((t + tz) div 86400000) * 86400000 - tz"

definition endOfDay :: "int \<Rightarrow> instant \<Rightarrow> instant" where
  "endOfDay tz t = startOfDay tz t + 86399999"

subsection \<open>Queries\<close>

text \<open>
  \<^verbatim>\<open>Array.prototype.findIndex\<close>, with \<open>None\<close> for \<^verbatim>\<open>-1\<close>. \<open>findOne P c\<close> is
  \<^verbatim>\<open>Model.findOne\<close>: the first document of the collection that satisfies the filter,
  with its position, so that \<^verbatim>\<open>save()\<close> can write the document back in place.
\<close>

fun findIndex :: "('a \<Rightarrow> bool) \<Rightarrow> 'a list \<Rightarrow> nat option" where
  "findIndex P [] = None"
| "findIndex P (x # xs) = (if P x then Some 0 else map_option Suc (findIndex P xs))"

definition findOne :: "('a \<Rightarrow> bool) \<Rightarrow> 'a list \<Rightarrow> (nat \<times> 'a) option" where
  "findOne P c = map_option (\<lambda>i. (i, c ! i)) (findIndex P c)"

text \<open>
  The filter \<^verbatim>\<open>{ userId, 'entries.date': { $gte: startDate, $lte: endDate } }\<close>.
  \<^verbatim>\<open>entries\<close> is an array and the filter has no \<^verbatim>\<open>$elemMatch\<close>, so MongoDB tests each
  comparison against the array on its own: the document matches when some entry is dated
  at or after \<open>startDate\<close> and some entry, the same or another one, at or before
  \<open>endDate\<close>. A diary with one entry inside the range matches in particular.
\<close>

definition entries_date_between :: "instant \<Rightarrow> instant \<Rightarrow> oid \<Rightarrow> diary \<Rightarrow> bool" where
  "entries_date_between startDate endDate uid d =
     (userId d = uid \<and> list_ex (\<lambda>e. startDate \<le> date e) (entries d)
        \<and> list_ex (\<lambda>e. date e \<le> endDate) (entries d))"

subsection \<open>Diary: POST /consumed\<close>

text \<open>
  The handler loads the diary with \<^verbatim>\<open>populate({ path: 'entries.productId', select: 'title' })\<close>:
  in every entry read from the database \<open>productId\<close> is then the Product document with
  its \<open>_id\<close> and \<open>title\<close>, or \<^verbatim>\<open>null\<close> when the catalog has no such product. (The Diary
  schema is not among the sources; that \<open>productId\<close> is a reference to a Product is what the
  four \<^verbatim>\<open>populate\<close> calls and the swagger block of GET /consumed say.)

  \<open>toString_ObjectId\<close> is \<^verbatim>\<open>ObjectId.prototype.toString\<close>: the 24 hexadecimal digits of the
  identifier; the \<open>productId\<close> of the request is such a string. \<open>toString_document\<close> is
  Mongoose's \<^verbatim>\<open>Document.prototype.toString\<close>: the inspection of the document as an object, in
  braces. The layout between the braces varies with the versions of Node and Mongoose.
\<close>

definition hexdigit :: "nat \<Rightarrow> char" where
  "hexdigit n = ''0123456789abcdef'' ! (n mod 16)"

primrec hex_digits :: "nat \<Rightarrow> nat \<Rightarrow> string" where
  "hex_digits 0 n = []"
| "hex_digits (Suc k) n = hex_digits k (n div 16) @ [hexdigit n]"

definition toString_ObjectId :: "oid \<Rightarrow> string" where
  "toString_ObjectId i = hex_digits 24 i"

definition toString_document :: "product \<Rightarrow> string" where
  "toString_document p =
     ''{ _id: '' @ toString_ObjectId (product_id p) @ '', title: '' @ title p @ '' }''"

text \<open>
  \<^verbatim>\<open>findIndex\<close> with a callback that may throw: the exception ends the search and the
  handler, which answers with status 500.
\<close>

fun findIndex_throwing :: "('a \<Rightarrow> error + bool) \<Rightarrow> 'a list \<Rightarrow> error + nat option" where
  "findIndex_throwing P [] = Inr None"
| "findIndex_throwing P (x # xs) =
     (case P x of
        Inl e \<Rightarrow> Inl e
      | Inr b \<Rightarrow>
        if b then Inr (Some 0)
        else (case findIndex_throwing P xs of
                Inl e \<Rightarrow> Inl e
              | Inr r \<Rightarrow> Inr (map_option Suc r)))"

text \<open>
  The callback of the handler on one entry:
  \<^verbatim>\<open>entry.productId.toString() === productId.toString() && new Date(entry.date).toISOString().startsWith(...)\<close>.
  Reading \<^verbatim>\<open>toString\<close> of \<^verbatim>\<open>null\<close> throws a TypeError.
\<close>

definition entry_matches :: "product list \<Rightarrow> oid \<Rightarrow> instant \<Rightarrow> entry \<Rightarrow> error + bool" where
  "entry_matches catalog pid today e =
     (case find (\<lambda>p. product_id p = productId e) catalog of
        None \<Rightarrow> Inl Unexpected
      | Some populated \<Rightarrow>
          Inr (toString_document populated = toString_ObjectId pid
               \<and> isoDate (date e) = isoDate today))"

text \<open>
  The reconciliation step of the handler: the entry at the index found is replaced where
  it stands, and the new entry is pushed when the index is \<^verbatim>\<open>-1\<close>.
\<close>

definition upsert_entry ::
  "product list \<Rightarrow> instant \<Rightarrow> entry \<Rightarrow> entry list \<Rightarrow> error + entry list" where
  "upsert_entry catalog today new es =
     (case findIndex_throwing (entry_matches catalog (productId new) today) es of
        Inl e \<Rightarrow> Inl e
      | Inr (Some entryIndex) \<Rightarrow> Inr (es[entryIndex := new])
      | Inr None \<Rightarrow> Inr (es @ [new]))"

text \<open>
  The request body gives \<open>productId\<close> and \<open>product_weight\<close>, \<open>None\<close> when the field is
  absent; \<^verbatim>\<open>!product_weight\<close> also holds of the number 0. The \<open>productId\<close> of a request is
  a well-formed ObjectId. Every \<^verbatim>\<open>new Date()\<close> of one request is the same instant \<open>now\<close>.
  The diary is created, with no entries, when the user has none; the new entry, a
  subdocument, gets a fresh \<^verbatim>\<open>_id\<close>. The answer carries the saved diary.
\<close>

definition logConsumption ::
  "product list \<Rightarrow> instant \<Rightarrow> oid \<Rightarrow> oid option \<Rightarrow> real option \<Rightarrow> store
     \<Rightarrow> error + (diary \<times> store)" where
  "logConsumption catalog now uid body_productId body_weight st =
     (case body_productId of
        None \<Rightarrow> Inl InvalidInput
      | Some pid \<Rightarrow>
        (case body_weight of
           None \<Rightarrow> Inl InvalidInput
         | Some w \<Rightarrow>
           if w = 0 then Inl InvalidInput
           else
             (case find (\<lambda>p. product_id p = pid) catalog of
                None \<Rightarrow> Inl NotFound
              | Some product \<Rightarrow>
                let cal = (calories product * w) / 100;
                    today = utc_midnight now
                in
                  (case findOne (\<lambda>d. userId d = uid) (diaries st) of
                     None \<Rightarrow>
                       let new = \<lparr>entry_id = next_id st + 1, productId = pid, product_weight = w,
                                  product_Calories = cal, date = now\<rparr>
                       in
                         (case upsert_entry catalog today new [] of
                            Inl e \<Rightarrow> Inl e
                          | Inr es \<Rightarrow>
                              let d = \<lparr>diary_id = next_id st, userId = uid, entries = es\<rparr>
                              in Inr (d, st\<lparr>diaries := diaries st @ [d],
                                            next_id := next_id st + 2\<rparr>))
                   | Some (i, diaryEntry) \<Rightarrow>
                       let new = \<lparr>entry_id = next_id st, productId = pid, product_weight = w,
                                  product_Calories = cal, date = now\<rparr>
                       in
                         (case upsert_entry catalog today new (entries diaryEntry) of
                            Inl e \<Rightarrow> Inl e
                          | Inr es \<Rightarrow>
                              let d = diaryEntry\<lparr>entries := es\<rparr>
                              in Inr (d, st\<lparr>diaries := (diaries st)[i := d],
                                            next_id := next_id st + 1\<rparr>))))))"

subsection \<open>Diary: DELETE /remove/:date/:productId\<close>

text \<open>
  \<open>endDate\<close> is \<^verbatim>\<open>Date.UTC(y, m, d + 1, 23, 59, 59, 999)\<close>: the last millisecond of the
  day after the requested one. The second route parameter, \<^verbatim>\<open>productId\<close> in the source,
  is compared with the \<^verbatim>\<open>_id\<close> of the entries; it is \<open>entryId\<close> here.
\<close>

definition removeConsumption ::
  "instant \<Rightarrow> oid \<Rightarrow> oid \<Rightarrow> store \<Rightarrow> error + (diary \<times> store)" where
  "removeConsumption inputDate uid entryId st =
     (let startDate = utc_midnight inputDate;
          endDate = utc_midnight inputDate + 86400000 + 86399999
      in
        (case findOne (entries_date_between startDate endDate uid) (diaries st) of
           None \<Rightarrow> Inl NotFound
         | Some (i, diaryEntry) \<Rightarrow>
           (case findIndex (\<lambda>e. entry_id e = entryId) (entries diaryEntry) of
              None \<Rightarrow> Inl NotFound
            | Some entryIndex \<Rightarrow>
              let d = diaryEntry\<lparr>entries := take entryIndex (entries diaryEntry)
                                        @ drop (Suc entryIndex) (entries diaryEntry)\<rparr>
              in Inr (d, st\<lparr>diaries := (diaries st)[i := d]\<rparr>))))"

subsection \<open>Diary: GET /consumed/:date\<close>

definition listConsumption :: "int \<Rightarrow> instant \<Rightarrow> oid \<Rightarrow> store \<Rightarrow> entry list" where
  "listConsumption tz inputDate uid st =
     (let startDate = utc_midnight inputDate;
          endDate = utc_midnight inputDate + 86400000 + 86399999
      in
        (case findOne (entries_date_between startDate endDate uid) (diaries st) of
           None \<Rightarrow> []
         | Some (i, diaryEntries) \<Rightarrow>
           if entries diaryEntries = [] then []
           else filter (\<lambda>e. toDateString tz (date e) = toDateString tz inputDate)
                  (entries diaryEntries)))"

subsection \<open>Summary: GET /summary/:date\<close>

text \<open>
  \<^verbatim>\<open>Number.prototype.toFixed(2)\<close>: the decimal string of the integer \<open>n\<close> for which
  \<open>n / 100\<close> is nearest to the number, the larger \<open>n\<close> at a tie, after the sign.
  (Numbers from \<open>10^21\<close> on are printed in exponent notation by JavaScript; the calories
  of a diary are far below, and the model prints every number positionally.)
  \<open>Number_of_fixed\<close> is the number such a string denotes: the Summary schema declares
  \<open>percentage\<close> a number, as the route's swagger block does, so Mongoose casts the string
  when the record is assigned.
\<close>

definition digit :: "nat \<Rightarrow> char" where
  "digit n = ''0123456789'' ! n"

fun digits :: "nat \<Rightarrow> string" where
  "digits n = (if n < 10 then [digit n] else digits (n div 10) @ [digit (n mod 10)])"

definition hundredths :: "real \<Rightarrow> nat" where
  "hundredths x = nat \<lfloor>\<bar>x\<bar> * 100 + 1 / 2\<rfloor>"

definition toFixed2 :: "real \<Rightarrow> string" where
  "toFixed2 x =
     (if x < 0 then ''-'' else []) @ digits (hundredths x div 100) @ ''.''
       @ [digit (hundredths x mod 100 div 10), digit (hundredths x mod 10)]"

definition Number_of_fixed :: "real \<Rightarrow> real" where
  "Number_of_fixed x = (if x < 0 then - 1 else 1) * real (hundredths x) / 100"

text \<open>The JSON answer of the route; \<open>r_percentage\<close> is the string \<^verbatim>\<open>toFixed\<close> returns.\<close>

record summary_response =
  r_date :: instant
  r_daily_left :: real
  r_daily_consumed :: real
  r_daily_rate :: real
  r_percentage :: string

text \<open>
  \<^verbatim>\<open>summary.summaryInfo.findIndex(index => index.diaryId.entries.some(...))\<close> after
  \<^verbatim>\<open>populate('summaryInfo.diaryId')\<close>: each record is tested on the diary its
  \<open>diaryId\<close> refers to. Population leaves \<^verbatim>\<open>null\<close> for a reference to no diary, and
  reading \<^verbatim>\<open>entries\<close> of it throws, which the handler answers with status 500.
\<close>

fun existingSummaryIndex ::
  "diary list \<Rightarrow> (entry \<Rightarrow> bool) \<Rightarrow> summaryInfo_item list \<Rightarrow> error + nat option" where
  "existingSummaryIndex ds P [] = Inr None"
| "existingSummaryIndex ds P (x # xs) =
     (case find (\<lambda>d. diary_id d = diaryId x) ds of
        None \<Rightarrow> Inl Unexpected
      | Some d \<Rightarrow>
        if list_ex P (entries d) then Inr (Some 0)
        else (case existingSummaryIndex ds P xs of
                Inl e \<Rightarrow> Inl e
              | Inr r \<Rightarrow> Inr (map_option Suc r)))"

definition getDailySummary ::
  "int \<Rightarrow> instant \<Rightarrow> oid \<Rightarrow> store \<Rightarrow> error + (summary_response \<times> store)" where
  "getDailySummary tz inputDate uid st =
     (let startDate = startOfDay tz inputDate;
          endDate = endOfDay tz inputDate
      in
        (case findOne (entries_date_between startDate endDate uid) (diaries st) of
           None \<Rightarrow> Inl NotFound
         | Some (i, diaryEntry) \<Rightarrow>
           let totalConsumed = foldl (\<lambda>accumulator p. accumulator + product_Calories p) 0
                                 (entries diaryEntry);
               dailyRate = 2800;
               dailyLeft = dailyRate - totalConsumed;
               dailyPercentage = (totalConsumed / dailyRate) * 100;
               found = findOne (\<lambda>s. summary_userId s = uid) (summaries st);
               info = (case found of None \<Rightarrow> [] | Some (j, s) \<Rightarrow> summaryInfo s);
               item = \<lparr>diaryId = diary_id diaryEntry, daily_left = dailyLeft,
                       daily_consumed = totalConsumed, daily_rate = dailyRate,
                       percentage = Number_of_fixed dailyPercentage\<rparr>;
               response = \<lparr>r_date = inputDate, r_daily_left = dailyLeft,
                           r_daily_consumed = totalConsumed, r_daily_rate = dailyRate,
                           r_percentage = toFixed2 dailyPercentage\<rparr>
           in
             (case existingSummaryIndex (diaries st)
                     (\<lambda>e. toDateString tz (date e) = toDateString tz inputDate) info of
                Inl e \<Rightarrow> Inl e
              | Inr idx \<Rightarrow>
                let info' = (case idx of
                               Some existingIndex \<Rightarrow> info[existingIndex := item]
                             | None \<Rightarrow> info @ [item]);
                    s' = \<lparr>summary_userId = uid, summaryInfo = info'\<rparr>
                in Inr (response,
                        st\<lparr>summaries := (case found of
                                            None \<Rightarrow> summaries st @ [s']
                                          | Some (j, s) \<Rightarrow> (summaries st)[j := s'])\<rparr>))))"

subsection \<open>Recommendations\<close>

definition getBloodTypeIndex :: "string \<Rightarrow> nat option" where
  "getBloodTypeIndex bloodType =
     findIndex (\<lambda>b. b = bloodType) [''0(I)'', ''A(II)'', ''B(III)'', ''AB(IV)'']"

text \<open>
  The body of a recommendation request: a field is \<open>None\<close> when absent. \<^verbatim>\<open>!height\<close>
  holds of an absent field, of the number 0 and of the empty string.
\<close>

record recommendation_body =
  body_height :: "real option"
  body_age :: "real option"
  body_current_weight :: "real option"
  body_desired_weight :: "real option"
  body_blood_type :: "string option"

definition all_fields :: "recommendation_body \<Rightarrow> calculator_data option" where
  "all_fields b =
     (case (body_height b, body_age b, body_current_weight b, body_desired_weight b,
            body_blood_type b) of
        (Some h, Some a, Some c, Some d, Some t) \<Rightarrow>
          if h = 0 \<or> a = 0 \<or> c = 0 \<or> d = 0 \<or> t = [] then None
          else Some \<lparr>height = h, age = a, current_weight = c, desired_weight = d,
                     blood_type = t\<rparr>
      | _ \<Rightarrow> None)"

record recommendation =
  dailyCalories :: real
  forbiddenProducts :: "product list"
  length_field :: nat

text \<open>
  \<^verbatim>\<open>filter\<close>, \<^verbatim>\<open>slice(0, 4)\<close>, then \<^verbatim>\<open>sort\<close> with \<^verbatim>\<open>a.title.localeCompare(b.title)\<close>.
  The collation of the runtime is the parameter \<open>collate\<close>: it maps a title to its sort
  key, and \<^verbatim>\<open>localeCompare\<close> compares the keys. \<^verbatim>\<open>Array.prototype.sort\<close> is stable, as
  \<open>sort_key\<close> is. Reading the array past its end gives \<^verbatim>\<open>undefined\<close>, and \<^verbatim>\<open>null\<close> is
  \<open>None\<close>: neither is \<^verbatim>\<open>=== true\<close>.
\<close>

definition forbidden :: "(string \<Rightarrow> 'k::linorder) \<Rightarrow> nat \<Rightarrow> product list \<Rightarrow> product list" where
  "forbidden collate bloodTypeIndex products =
     sort_key (\<lambda>p. collate (title p))
       (take 4 (filter (\<lambda>p. bloodTypeIndex < length (groupBloodNotAllowed p)
                             \<and> groupBloodNotAllowed p ! bloodTypeIndex = Some True) products))"

definition getPublicRecommendation ::
  "(string \<Rightarrow> 'k::linorder) \<Rightarrow> product list \<Rightarrow> recommendation_body \<Rightarrow> error + recommendation" where
  "getPublicRecommendation collate products b =
     (case all_fields b of
        None \<Rightarrow> Inl InvalidInput
      | Some c \<Rightarrow>
        (case getBloodTypeIndex (blood_type c) of
           None \<Rightarrow> Inl InvalidInput
         | Some bloodTypeIndex \<Rightarrow>
           let forbiddenProducts = forbidden collate bloodTypeIndex products
           in Inr \<lparr>dailyCalories = 2800, forbiddenProducts = forbiddenProducts,
                   length_field = length forbiddenProducts\<rparr>))"

text \<open>
  The private route first stores the profile: the user's Calculator document gets the
  one-element \<open>data\<close> array, or is created with it.
\<close>

definition saveProfile :: "oid \<Rightarrow> calculator_data \<Rightarrow> store \<Rightarrow> store" where
  "saveProfile uid c st =
     (case findOne (\<lambda>x. calculator_userId x = uid) (calculators st) of
        Some (i, existingData) \<Rightarrow>
          st\<lparr>calculators := (calculators st)[i := existingData\<lparr>data := [c]\<rparr>]\<rparr>
      | None \<Rightarrow>
          st\<lparr>calculators := calculators st @ [\<lparr>calculator_userId = uid, data = [c]\<rparr>]\<rparr>)"

definition getPrivateRecommendation ::
  "(string \<Rightarrow> 'k::linorder) \<Rightarrow> product list \<Rightarrow> oid \<Rightarrow> recommendation_body \<Rightarrow> store
     \<Rightarrow> error + (recommendation \<times> store)" where
  "getPrivateRecommendation collate products uid b st =
     (case all_fields b of
        None \<Rightarrow> Inl InvalidInput
      | Some c \<Rightarrow>
        (case getBloodTypeIndex (blood_type c) of
           None \<Rightarrow> Inl InvalidInput
         | Some bloodTypeIndex \<Rightarrow>
           let st' = saveProfile uid c st;
               forbiddenProducts = forbidden collate bloodTypeIndex products
           in Inr (\<lparr>dailyCalories = 2800, forbiddenProducts = forbiddenProducts,
                    length_field = length forbiddenProducts\<rparr>, st')))"

subsection \<open>The entries of a user\<close>

text \<open>
  \<open>entries_of uid st\<close> are the entries of the diary \<^verbatim>\<open>Diary.findOne({ userId })\<close> returns,
  none when the user has no diary.
\<close>

definition entries_of :: "oid \<Rightarrow> store \<Rightarrow> entry list" where
  "entries_of uid st =
     (case findOne (\<lambda>d. userId d = uid) (diaries st) of
        None \<Rightarrow> []
      | Some (i, d) \<Rightarrow> entries d)"

subsection \<open>The summary history of a user\<close>

text \<open>
  \<open>history_of uid st\<close> is the \<open>summaryInfo\<close> array of the document
  \<^verbatim>\<open>Summary.findOne({ userId })\<close> returns, empty when there is none. \<open>refers_to_day\<close> is
  the test of the handler's \<^verbatim>\<open>findIndex\<close> on one record: the diary the record refers to
  has an entry on the requested calendar day. \<open>summary_item\<close> and \<open>summary_answer\<close> are
  the record and the answer the handler computes from the diary it located.
\<close>

definition history_of :: "oid \<Rightarrow> store \<Rightarrow> summaryInfo_item list" where
  "history_of uid st =
     (case findOne (\<lambda>s. summary_userId s = uid) (summaries st) of
        None \<Rightarrow> []
      | Some (j, s) \<Rightarrow> summaryInfo s)"

definition refers_to_day :: "int \<Rightarrow> instant \<Rightarrow> store \<Rightarrow> summaryInfo_item \<Rightarrow> bool" where
  "refers_to_day tz inputDate st x =
     (case find (\<lambda>d. diary_id d = diaryId x) (diaries st) of
        None \<Rightarrow> False
      | Some d \<Rightarrow> list_ex (\<lambda>e. toDateString tz (date e) = toDateString tz inputDate) (entries d))"

definition total_calories :: "entry list \<Rightarrow> real" where
  "total_calories es = sum_list (map product_Calories es)"

definition summary_item :: "diary \<Rightarrow> summaryInfo_item" where
  "summary_item d =
     \<lparr>diaryId = diary_id d, daily_left = 2800 - total_calories (entries d),
       daily_consumed = total_calories (entries d), daily_rate = 2800,
       percentage = Number_of_fixed ((total_calories (entries d) / 2800) * 100)\<rparr>"

definition summary_answer :: "instant \<Rightarrow> diary \<Rightarrow> summary_response" where
  "summary_answer inputDate d =
     \<lparr>r_date = inputDate, r_daily_left = 2800 - total_calories (entries d),
       r_daily_consumed = total_calories (entries d), r_daily_rate = 2800,
       r_percentage = toFixed2 ((total_calories (entries d) / 2800) * 100)\<rparr>"

section \<open>Example data\<close>

definition example_products :: "product list" where
  "example_products =
     [\<lparr>product_id = 1, title = ''Rye bread'', calories = 259,
        groupBloodNotAllowed = [None, Some True, Some False, Some False, Some False]\<rparr>,
      \<lparr>product_id = 2, title = ''Omelet with cheese'', calories = 342,
        groupBloodNotAllowed = [None, Some True, Some True, Some True, Some True]\<rparr>,
      \<lparr>product_id = 3, title = ''Water'', calories = 0,
        groupBloodNotAllowed = [None, Some False, Some False, Some False, Some False]\<rparr>,
      \<lparr>product_id = 4, title = ''Milk'', calories = 64,
        groupBloodNotAllowed = [None, Some True, Some False, Some True, Some False]\<rparr>,
      \<lparr>product_id = 5, title = ''Eggplant'', calories = 24,
        groupBloodNotAllowed = [None, Some True, Some False, Some False, Some False]\<rparr>,
      \<lparr>product_id = 6, title = ''Apple'', calories = 52,
        groupBloodNotAllowed = [None, Some True, Some False, Some False, Some False]\<rparr>]"

definition example_body :: recommendation_body where
  "example_body = \<lparr>body_height = Some 175, body_age = Some 30, body_current_weight = Some 70,
     body_desired_weight = Some 65, body_blood_type = Some ''A(II)''\<rparr>"

definition example_store :: store where
  "example_store =
     \<lparr>diaries = [\<lparr>diary_id = 0, userId = 1, entries =
        [\<lparr>entry_id = 1, productId = 2, product_weight = 100, product_Calories = 342,
           date = 43200000\<rparr>,
         \<lparr>entry_id = 2, productId = 4, product_weight = 200, product_Calories = 128,
           date = 475200000\<rparr>]\<rparr>],
      summaries = [], calculators = [], next_id = 3\<rparr>"

definition store_after_first :: store where
  "store_after_first =
     \<lparr>diaries = [\<lparr>diary_id = 0, userId = 1, entries =
        [\<lparr>entry_id = 1, productId = 2, product_weight = 150, product_Calories = 513,
           date = 1000\<rparr>]\<rparr>],
      summaries = [], calculators = [], next_id = 2\<rparr>"

definition store_after_second :: store where
  "store_after_second =
     \<lparr>diaries = [\<lparr>diary_id = 0, userId = 1, entries =
        [\<lparr>entry_id = 1, productId = 2, product_weight = 150, product_Calories = 513,
           date = 1000\<rparr>,
         \<lparr>entry_id = 2, productId = 2, product_weight = 50, product_Calories = 171,
           date = 2000\<rparr>]\<rparr>],
      summaries = [], calculators = [], next_id = 3\<rparr>"

definition example_store_over :: store where
  "example_store_over =
     \<lparr>diaries = [\<lparr>diary_id = 0, userId = 1, entries =
        [\<lparr>entry_id = 1, productId = 2, product_weight = 1000, product_Calories = 3420,
           date = 1000\<rparr>]\<rparr>],
      summaries = [], calculators = [], next_id = 2\<rparr>"

definition example_store_summarised :: store where
  "example_store_summarised =
     example_store\<lparr>summaries := [\<lparr>summary_userId = 1, summaryInfo =
        [\<lparr>diaryId = 0, daily_left = 2330, daily_consumed = 470, daily_rate = 2800,
           percentage = 1679 / 100\<rparr>]\<rparr>]\<rparr>"

definition example_store_late :: store where
  "example_store_late =
     \<lparr>diaries = [\<lparr>diary_id = 0, userId = 1, entries =
        [\<lparr>entry_id = 1, productId = 2, product_weight = 100, product_Calories = 342,
           date = 82800000\<rparr>]\<rparr>],
      summaries = [], calculators = [], next_id = 2\<rparr>"

definition example_store_2359 :: store where
  "example_store_2359 =
     \<lparr>diaries = [\<lparr>diary_id = 0, userId = 1, entries =
        [\<lparr>entry_id = 1, productId = 2, product_weight = 150, product_Calories = 513,
           date = 172740000\<rparr>]\<rparr>],
      summaries = [], calculators = [], next_id = 2\<rparr>"

section \<open>Queries: first match\<close>

lemma findIndex_SomeD:
  "findIndex P xs = Some i \<Longrightarrow> i < length xs \<and> P (xs ! i) \<and> (\<forall>j<i. \<not> P (xs ! j))"
proof (induction xs arbitrary: i)
  case Nil
  then show ?case by simp
next
  case (Cons x xs)
  show ?case
  proof (cases "P x")
    case True
    with Cons.prems show ?thesis by simp
  next
    case False
    with Cons.prems obtain k where k: "findIndex P xs = Some k" "i = Suc k"
      by auto
    from Cons.IH [OF k(1)] False k(2) show ?thesis
      by (auto simp: less_Suc_eq_0_disj)
  qed
qed

lemma findIndex_None_iff: "findIndex P xs = None \<longleftrightarrow> (\<forall>x\<in>set xs. \<not> P x)"
  by (induction xs) auto

lemma findIndex_first:
  "i < length xs \<Longrightarrow> P (xs ! i) \<Longrightarrow> (\<forall>j<i. \<not> P (xs ! j)) \<Longrightarrow> findIndex P xs = Some i"
proof (induction xs arbitrary: i)
  case Nil
  then show ?case by simp
next
  case (Cons x xs)
  show ?case
  proof (cases i)
    case 0
    with Cons.prems show ?thesis by simp
  next
    case (Suc k)
    with Cons.prems have "\<not> P x" by auto
    moreover have "findIndex P xs = Some k"
      using Cons.prems Suc by (intro Cons.IH) auto
    ultimately show ?thesis using Suc by simp
  qed
qed

lemma findOne_SomeD:
  "findOne P c = Some (i, d) \<Longrightarrow> i < length c \<and> c ! i = d \<and> P d \<and> (\<forall>j<i. \<not> P (c ! j))"
  by (auto simp: findOne_def dest: findIndex_SomeD)

lemma findOne_first:
  "i < length c \<Longrightarrow> P (c ! i) \<Longrightarrow> (\<forall>j<i. \<not> P (c ! j)) \<Longrightarrow> findOne P c = Some (i, c ! i)"
  by (simp add: findOne_def findIndex_first)

lemma findOne_None_iff: "findOne P c = None \<longleftrightarrow> (\<forall>x\<in>set c. \<not> P x)"
  by (simp add: findOne_def findIndex_None_iff)

lemma findOne_update:
  assumes "findOne P c = Some (i, d)" and "P d'"
  shows "findOne P (c[i := d']) = Some (i, d')"
proof -
  from findOne_SomeD [OF assms(1)] have i: "i < length c" and first: "\<forall>j<i. \<not> P (c ! j)"
    by auto
  have "findOne P (c[i := d']) = Some (i, c[i := d'] ! i)"
    using i first assms(2) by (intro findOne_first) auto
  then show ?thesis using i by simp
qed

lemma findOne_append_new:
  assumes "findOne P c = None" and "P d'"
  shows "findOne P (c @ [d']) = Some (length c, d')"
proof -
  from assms(1) have none: "\<forall>x\<in>set c. \<not> P x" by (simp add: findOne_None_iff)
  have "findOne P (c @ [d']) = Some (length c, (c @ [d']) ! length c)"
    using none assms(2) by (intro findOne_first) (auto simp: nth_append)
  then show ?thesis by simp
qed

lemma findOne_dated:
  assumes "findOne (\<lambda>d. userId d = uid) c = Some (i, d)"
    and "e \<in> set (entries d)" and "s \<le> date e" and "e' \<in> set (entries d)" and "date e' \<le> t"
  shows "findOne (entries_date_between s t uid) c = Some (i, d)"
proof -
  from findOne_SomeD [OF assms(1)]
  have i: "i < length c" "c ! i = d" "userId d = uid" "\<forall>j<i. userId (c ! j) \<noteq> uid"
    by auto
  have "entries_date_between s t uid (c ! i)"
    using i assms(2-5) by (auto simp: entries_date_between_def list_ex_iff)
  moreover have "\<forall>j<i. \<not> entries_date_between s t uid (c ! j)"
    using i(4) by (simp add: entries_date_between_def)
  ultimately have "findOne (entries_date_between s t uid) c = Some (i, c ! i)"
    using i(1) by (intro findOne_first)
  then show ?thesis using i(2) by simp
qed

section \<open>Diary: a product logged twice on one day\<close>

text \<open>
  The string of a populated product is never the string of an identifier: it has a
  brace, and the 24 digits have none. So the callback never answers \<^verbatim>\<open>true\<close>: the search
  ends with \<^verbatim>\<open>-1\<close>, or with the TypeError when a product of the diary is no longer in the
  catalog, and an entry read from the database is never replaced.
\<close>

lemma hexdigit_in: "hexdigit n \<in> set ''0123456789abcdef''"
  unfolding hexdigit_def by (rule nth_mem) simp

lemma brace_not_hex: "CHR ''{'' \<notin> set (hex_digits k n)"
proof (induction k arbitrary: n)
  case 0
  show ?case by simp
next
  case (Suc k)
  have "hexdigit n \<noteq> CHR ''{''"
    using hexdigit_in [of n] by auto
  with Suc show ?case by simp
qed

lemma toString_document_neq [simp]: "toString_document p \<noteq> toString_ObjectId i"
proof
  assume "toString_document p = toString_ObjectId i"
  then have "set (toString_document p) = set (hex_digits 24 i)"
    by (simp add: toString_ObjectId_def)
  moreover have "CHR ''{'' \<in> set (toString_document p)"
    by (simp add: toString_document_def)
  ultimately show False
    using brace_not_hex by blast
qed

lemma entry_matches_eq:
  "entry_matches catalog pid today e =
     (case find (\<lambda>p. product_id p = productId e) catalog of
        None \<Rightarrow> Inl Unexpected
      | Some populated \<Rightarrow> Inr False)"
  by (simp add: entry_matches_def split: option.splits)

lemma findIndex_entry_matches:
  "findIndex_throwing (entry_matches catalog pid today) es =
     (if list_all (\<lambda>e. find (\<lambda>p. product_id p = productId e) catalog \<noteq> None) es
      then Inr None else Inl Unexpected)"
  by (induction es) (auto simp: entry_matches_eq split: option.splits)

lemma upsert_entry_eq:
  "upsert_entry catalog today new es =
     (if list_all (\<lambda>e. find (\<lambda>p. product_id p = productId e) catalog \<noteq> None) es
      then Inr (es @ [new]) else Inl Unexpected)"
  by (simp add: upsert_entry_def findIndex_entry_matches)

text \<open>
  Hence every request that is answered with 201 adds one entry to the diary of the user,
  whatever the diary holds.
\<close>

lemma logConsumption_appends:
  assumes "logConsumption catalog now uid p w st = Inr (d, st')"
  shows "\<exists>new. entries d = entries_of uid st @ [new] \<and> date new = now
               \<and> entries_of uid st' = entries d"
proof -
  from assms obtain pid x product where px: "p = Some pid" "w = Some x" "x \<noteq> 0"
    and prod: "find (\<lambda>q. product_id q = pid) catalog = Some product"
    by (auto simp: logConsumption_def split: option.splits if_splits)
  show ?thesis
  proof (cases "findOne (\<lambda>d. userId d = uid) (diaries st)")
    case None
    with assms px prod show ?thesis
      by (auto simp: logConsumption_def Let_def upsert_entry_eq entries_of_def
          findOne_append_new)
  next
    case (Some a)
    obtain i d0 where a: "a = (i, d0)" by (cases a)
    from findOne_SomeD [OF Some [unfolded a]] have "userId d0 = uid" by simp
    with assms px prod Some a show ?thesis
      by (auto simp: logConsumption_def Let_def upsert_entry_eq entries_of_def
          findOne_update split: if_splits)
  qed
qed

lemma example_first_log:
  "logConsumption example_products 1000 1 (Some 2) (Some 150) empty_store
     = Inr (diaries store_after_first ! 0, store_after_first)"
  by (simp add: logConsumption_def upsert_entry_eq example_products_def empty_store_def
      findOne_def Let_def store_after_first_def)

lemma example_second_log:
  "logConsumption example_products 2000 1 (Some 2) (Some 50) store_after_first
     = Inr (diaries store_after_second ! 0, store_after_second)"
  by (simp add: logConsumption_def upsert_entry_eq example_products_def findOne_def
      Let_def store_after_first_def store_after_second_def)

text \<open>
  C1. The scenario of the specification: starting from the empty store, user 1 logs
  150 g of product 2 (342 kcal per 100 g) at 1970-01-01T00:00:01Z and 50 g of it one
  second later. Both requests are answered with 201. The second request does not
  replace the entry of the first: the diary then holds two entries of product 2 for
  the day, of 513 and of 171 kcal.
\<close>

theorem logConsumption_twice_two_entries:
  "logConsumption example_products 1000 1 (Some 2) (Some 150) empty_store
     = Inr (diaries store_after_first ! 0, store_after_first)
   \<and> logConsumption example_products 2000 1 (Some 2) (Some 50) store_after_first
     = Inr (diaries store_after_second ! 0, store_after_second)
   \<and> isoDate 2000 = isoDate 1000
   \<and> filter (\<lambda>e. productId e = 2 \<and> isoDate (date e) = isoDate 1000)
        (entries_of 1 store_after_second)
       = [\<lparr>entry_id = 1, productId = 2, product_weight = 150, product_Calories = 513,
            date = 1000\<rparr>,
          \<lparr>entry_id = 2, productId = 2, product_weight = 50, product_Calories = 171,
            date = 2000\<rparr>]"
  using example_first_log example_second_log
  by (simp add: isoDate_def entries_of_def findOne_def store_after_second_def)

section \<open>Diary: removal\<close>

text \<open>
  C10. When the user's diary has an entry dated from the start of the requested UTC day to
  the last millisecond of the day after it, the diary is located; the entry removed is
  the first one whose \<open>_id\<close> is \<open>entryId\<close>, wherever it stands and whatever its date is:
  nothing in the hypotheses, and nothing in the handler, relates the date of the removed
  entry to the requested day.
\<close>

theorem removeConsumption_ignores_entry_date:
  assumes user_diary: "findOne (\<lambda>d. userId d = uid) (diaries st) = Some (i, d)"
    and in_window: "e \<in> set (entries d)" "utc_midnight inputDate \<le> date e"
      "date e \<le> utc_midnight inputDate + 2 * 86400000 - 1"
    and position: "k < length (entries d)"
    and matches: "entry_id (entries d ! k) = entryId"
    and first: "\<forall>j<k. entry_id (entries d ! j) \<noteq> entryId"
  shows "removeConsumption inputDate uid entryId st =
           Inr (d\<lparr>entries := take k (entries d) @ drop (Suc k) (entries d)\<rparr>,
                st\<lparr>diaries := (diaries st)[i := d\<lparr>entries := take k (entries d)
                                                       @ drop (Suc k) (entries d)\<rparr>]\<rparr>)"
proof -
  have located: "findOne (entries_date_between (utc_midnight inputDate)
      (utc_midnight inputDate + 86400000 + 86399999) uid) (diaries st) = Some (i, d)"
    using user_diary in_window by (intro findOne_dated [where e = e and e' = e]) auto
  have "findIndex (\<lambda>x. entry_id x = entryId) (entries d) = Some k"
    using position matches first by (intro findIndex_first) auto
  with located show ?thesis
    by (simp add: removeConsumption_def Let_def)
qed

text \<open>
  A request for 1970-01-01 removes the entry with \<open>_id\<close> 2, which is dated 1970-01-06:
  the diary is located through its other entry.
\<close>

theorem removeConsumption_other_day_witness:
  "isoDate (date (entries (diaries example_store ! 0) ! 1)) = 5
   \<and> isoDate 0 = 0
   \<and> removeConsumption 0 1 2 example_store =
       Inr (\<lparr>diary_id = 0, userId = 1, entries =
              [\<lparr>entry_id = 1, productId = 2, product_weight = 100, product_Calories = 342,
                 date = 43200000\<rparr>]\<rparr>,
            \<lparr>diaries = [\<lparr>diary_id = 0, userId = 1, entries =
              [\<lparr>entry_id = 1, productId = 2, product_weight = 100, product_Calories = 342,
                 date = 43200000\<rparr>]\<rparr>],
             summaries = [], calculators = [], next_id = 3\<rparr>)"
proof -
  let ?d = "diaries example_store ! 0"
  let ?e = "entries ?d ! 0"
  have h1: "findOne (\<lambda>d. userId d = 1) (diaries example_store) = Some (0, ?d)"
    by (simp add: example_store_def findOne_def)
  have h2: "?e \<in> set (entries ?d)" "utc_midnight 0 \<le> date ?e"
      "date ?e \<le> utc_midnight 0 + 2 * 86400000 - 1"
    by (simp_all add: example_store_def utc_midnight_def)
  have h3: "1 < length (entries ?d)" "entry_id (entries ?d ! 1) = 2"
      "\<forall>j<1. entry_id (entries ?d ! j) \<noteq> 2"
    by (simp_all add: example_store_def)
  from removeConsumption_ignores_entry_date [OF h1 h2 h3]
  show ?thesis
    by (simp add: example_store_def isoDate_def)
qed

section \<open>Recommendations: the forbidden products\<close>

lemma length_forbidden: "length (forbidden collate i products) \<le> 4"
  by (simp add: forbidden_def)

lemma sorted_forbidden: "sorted (map (\<lambda>p. collate (title p)) (forbidden collate i products))"
  unfolding forbidden_def by (rule sorted_sort_key)

text \<open>
  C6. A request is valid when its five fields are present and truthy and its blood type
  is one of the four codes, at index \<open>i\<close>. Both routes then answer with the same list:
  the products whose \<open>groupBloodNotAllowed\<close> is \<open>true\<close> at \<open>i\<close>, cut to the first four
  in catalog order, and only then sorted by title. The list has at most four elements, is
  sorted by title, and \<open>length\<close> is its length.
\<close>

theorem forbiddenProducts_filter_slice_sort:
  assumes "all_fields b = Some c" and "getBloodTypeIndex (blood_type c) = Some i"
  shows "\<exists>r r' st'.
           getPublicRecommendation collate products b = Inr r
         \<and> getPrivateRecommendation collate products uid b st = Inr (r', st')
         \<and> forbiddenProducts r' = forbiddenProducts r
         \<and> forbiddenProducts r =
             sort_key (\<lambda>p. collate (title p))
               (take 4 (filter (\<lambda>p. i < length (groupBloodNotAllowed p)
                                     \<and> groupBloodNotAllowed p ! i = Some True) products))
         \<and> length (forbiddenProducts r) \<le> 4
         \<and> sorted (map (\<lambda>p. collate (title p)) (forbiddenProducts r))
         \<and> length_field r = length (forbiddenProducts r)
         \<and> length_field r' = length (forbiddenProducts r')"
proof -
  let ?f = "forbidden collate i products"
  let ?r = "\<lparr>dailyCalories = 2800, forbiddenProducts = ?f, length_field = length ?f\<rparr>"
  have pub: "getPublicRecommendation collate products b = Inr ?r"
    using assms by (simp add: getPublicRecommendation_def Let_def)
  have priv: "getPrivateRecommendation collate products uid b st = Inr (?r, saveProfile uid c st)"
    using assms by (simp add: getPrivateRecommendation_def Let_def)
  have "forbiddenProducts ?r =
             sort_key (\<lambda>p. collate (title p))
               (take 4 (filter (\<lambda>p. i < length (groupBloodNotAllowed p)
                                     \<and> groupBloodNotAllowed p ! i = Some True) products))"
    by (simp add: forbidden_def)
  moreover have "length (forbiddenProducts ?r) \<le> 4"
    by (simp add: length_forbidden)
  moreover have "sorted (map (\<lambda>p. collate (title p)) (forbiddenProducts ?r))"
    by (simp add: sorted_forbidden)
  ultimately show ?thesis
    using pub priv by (intro exI[of _ ?r] exI[of _ "saveProfile uid c st"]) simp
qed

text \<open>
  Five products of the example catalog are forbidden for blood type A(II). Apple, the
  fifth in catalog order, is cut before the sort, although its title sorts first.
\<close>

theorem forbiddenProducts_witness:
  "\<exists>r. getPublicRecommendation (\<lambda>s. s) example_products example_body = Inr r
       \<and> map title (forbiddenProducts r)
           = [''Eggplant'', ''Milk'', ''Omelet with cheese'', ''Rye bread'']
       \<and> length (forbiddenProducts r) \<le> 4
       \<and> sorted (map title (forbiddenProducts r))"
proof -
  have h1: "all_fields example_body =
      Some \<lparr>height = 175, age = 30, current_weight = 70, desired_weight = 65,
             blood_type = ''A(II)''\<rparr>"
    by (simp add: all_fields_def example_body_def)
  have h2: "getBloodTypeIndex (blood_type \<lparr>height = 175, age = 30, current_weight = 70,
      desired_weight = 65, blood_type = ''A(II)''\<rparr>) = Some 1"
    by (simp add: getBloodTypeIndex_def)
  from forbiddenProducts_filter_slice_sort [OF h1 h2, of "\<lambda>s. s" example_products 0 empty_store]
  show ?thesis
    by (auto simp add: example_products_def)
qed

section \<open>Diary: validation of a consumption\<close>

text \<open>
  C9, as the handler does it. The request is refused with InvalidInput exactly when the
  product identifier or the weight is missing or the weight is 0; with NotFound exactly
  when both are given, the weight is not 0 and the catalog has no such product. Otherwise
  it succeeds, unless a product of an entry already in the diary is no longer in the
  catalog, in which case the answer is the status 500. The sign of the weight is not
  examined.
\<close>

theorem logConsumption_validation:
  "(logConsumption catalog now uid p w st = Inl InvalidInput
      \<longleftrightarrow> p = None \<or> w = None \<or> w = Some 0)
   \<and> (logConsumption catalog now uid p w st = Inl NotFound
      \<longleftrightarrow> (\<exists>pid x. p = Some pid \<and> w = Some x \<and> x \<noteq> 0
                 \<and> find (\<lambda>q. product_id q = pid) catalog = None))
   \<and> ((\<exists>d st'. logConsumption catalog now uid p w st = Inr (d, st'))
      \<longleftrightarrow> (\<exists>pid x product. p = Some pid \<and> w = Some x \<and> x \<noteq> 0
                 \<and> find (\<lambda>q. product_id q = pid) catalog = Some product
                 \<and> list_all (\<lambda>e. find (\<lambda>q. product_id q = productId e) catalog \<noteq> None)
                      (entries_of uid st)))
   \<and> (logConsumption catalog now uid p w st = Inl Unexpected
      \<longleftrightarrow> (\<exists>pid x product. p = Some pid \<and> w = Some x \<and> x \<noteq> 0
                 \<and> find (\<lambda>q. product_id q = pid) catalog = Some product
                 \<and> list_ex (\<lambda>e. find (\<lambda>q. product_id q = productId e) catalog = None)
                      (entries_of uid st)))"
proof (cases p)
  case None
  then show ?thesis by (simp add: logConsumption_def)
next
  case (Some pid)
  note p = this
  show ?thesis
  proof (cases w)
    case None
    with p show ?thesis by (simp add: logConsumption_def)
  next
    case (Some x)
    note w = this
    show ?thesis
    proof (cases "x = 0")
      case True
      with p w show ?thesis by (simp add: logConsumption_def)
    next
      case False
      note x = this
      show ?thesis
      proof (cases "find (\<lambda>q. product_id q = pid) catalog")
        case None
        with p w x show ?thesis by (simp add: logConsumption_def)
      next
        case (Some product)
        note prod = this
        show ?thesis
        proof (cases "findOne (\<lambda>d. userId d = uid) (diaries st)")
          case None
          with p w x prod show ?thesis
            by (simp add: logConsumption_def Let_def upsert_entry_eq entries_of_def)
        next
          case (Some a)
          obtain i d where a: "a = (i, d)" by (cases a)
          with p w x prod Some show ?thesis
            by (simp add: logConsumption_def Let_def upsert_entry_eq entries_of_def
                list_all_iff list_ex_iff)
        qed
      qed
    qed
  qed
qed

text \<open>
  A weight of \<open>- 5\<close> is not positive, and the request is answered with 201: the entry is
  stored with \<open>- 17.1\<close> calories.
\<close>

theorem logConsumption_negative_weight_counterexample:
  "(- 5 :: real) \<le> 0
   \<and> logConsumption example_products 1000 1 (Some 2) (Some (- 5)) empty_store =
       Inr (\<lparr>diary_id = 0, userId = 1, entries =
              [\<lparr>entry_id = 1, productId = 2, product_weight = - 5,
                 product_Calories = - 171 / 10, date = 1000\<rparr>]\<rparr>,
            \<lparr>diaries = [\<lparr>diary_id = 0, userId = 1, entries =
              [\<lparr>entry_id = 1, productId = 2, product_weight = - 5,
                 product_Calories = - 171 / 10, date = 1000\<rparr>]\<rparr>],
             summaries = [], calculators = [], next_id = 2\<rparr>)"
  by (simp add: logConsumption_def upsert_entry_eq example_products_def empty_store_def
      findOne_def Let_def)

section \<open>Summary\<close>

lemma foldl_calories:
  "foldl (\<lambda>accumulator p. accumulator + product_Calories p) a es = a + total_calories es"
  by (induction es arbitrary: a) (simp_all add: total_calories_def)

lemma existingSummaryIndex_SomeD:
  assumes "existingSummaryIndex (diaries st)
             (\<lambda>e. toDateString tz (date e) = toDateString tz t) xs = Inr (Some k)"
  shows "k < length xs \<and> refers_to_day tz t st (xs ! k)
         \<and> (\<forall>j<k. \<not> refers_to_day tz t st (xs ! j))"
  using assms
proof (induction xs arbitrary: k)
  case Nil
  then show ?case by simp
next
  case (Cons x xs)
  show ?case
  proof (cases "refers_to_day tz t st x")
    case True
    with Cons.prems have "k = 0"
      by (auto simp: refers_to_day_def split: option.splits if_splits sum.splits)
    with True show ?thesis by simp
  next
    case False
    with Cons.prems obtain k' where k': "existingSummaryIndex (diaries st)
        (\<lambda>e. toDateString tz (date e) = toDateString tz t) xs = Inr (Some k')" "k = Suc k'"
      by (auto simp: refers_to_day_def split: option.splits if_splits sum.splits)
    from Cons.IH [OF k'(1)] False k'(2) show ?thesis
      by (auto simp: less_Suc_eq_0_disj)
  qed
qed

lemma existingSummaryIndex_NoneD:
  assumes "existingSummaryIndex (diaries st)
             (\<lambda>e. toDateString tz (date e) = toDateString tz t) xs = Inr None"
  shows "\<forall>x\<in>set xs. \<not> refers_to_day tz t st x"
  using assms
proof (induction xs)
  case Nil
  then show ?case by simp
next
  case (Cons x xs)
  then show ?case
    by (auto simp: refers_to_day_def split: option.splits if_splits sum.splits)
qed

lemma history_of_update:
  assumes "findOne (\<lambda>s. summary_userId s = uid) (summaries st) = Some (j, s)"
  shows "history_of uid (st\<lparr>summaries := (summaries st)
           [j := \<lparr>summary_userId = uid, summaryInfo = info\<rparr>]\<rparr>) = info"
  using findOne_update [OF assms, of "\<lparr>summary_userId = uid, summaryInfo = info\<rparr>"]
  by (simp add: history_of_def)

lemma history_of_append:
  assumes "findOne (\<lambda>s. summary_userId s = uid) (summaries st) = None"
  shows "history_of uid (st\<lparr>summaries := summaries st
           @ [\<lparr>summary_userId = uid, summaryInfo = info\<rparr>]\<rparr>) = info"
  using findOne_append_new [OF assms, of "\<lparr>summary_userId = uid, summaryInfo = info\<rparr>"]
  by (simp add: history_of_def)

lemma getDailySummary_InrD:
  assumes "getDailySummary tz t uid st = Inr (r, st')"
  shows "\<exists>i d idx.
           findOne (entries_date_between (startOfDay tz t) (endOfDay tz t) uid) (diaries st)
             = Some (i, d)
         \<and> existingSummaryIndex (diaries st)
              (\<lambda>e. toDateString tz (date e) = toDateString tz t) (history_of uid st) = Inr idx
         \<and> r = summary_answer t d
         \<and> history_of uid st' =
             (case idx of
                Some k \<Rightarrow> (history_of uid st)[k := summary_item d]
              | None \<Rightarrow> history_of uid st @ [summary_item d])"
proof -
  from assms obtain a where a: "findOne (entries_date_between (startOfDay tz t) (endOfDay tz t) uid)
      (diaries st) = Some a"
    by (auto simp: getDailySummary_def Let_def split: option.splits)
  obtain i d where id: "a = (i, d)" by (cases a)
  show ?thesis
  proof (cases "findOne (\<lambda>s. summary_userId s = uid) (summaries st)")
    case None
    with assms a id show ?thesis
      by (auto simp: getDailySummary_def Let_def foldl_calories history_of_append
          history_of_def [of uid st] summary_item_def summary_answer_def
          split: sum.splits option.splits)
  next
    case (Some b)
    obtain j s where b: "b = (j, s)" by (cases b)
    with assms a id Some show ?thesis
      by (auto simp: getDailySummary_def Let_def foldl_calories history_of_update
          history_of_def [of uid st] summary_item_def summary_answer_def
          split: sum.splits option.splits)
  qed
qed

lemma getDailySummary_InrE:
  assumes "getDailySummary tz t uid st = Inr (r, st')"
  obtains i d idx where
    "findOne (entries_date_between (startOfDay tz t) (endOfDay tz t) uid) (diaries st)
       = Some (i, d)"
    and "existingSummaryIndex (diaries st)
           (\<lambda>e. toDateString tz (date e) = toDateString tz t) (history_of uid st) = Inr idx"
    and "r = summary_answer t d"
    and "idx = None \<Longrightarrow> history_of uid st' = history_of uid st @ [summary_item d]"
    and "\<And>k. idx = Some k \<Longrightarrow> history_of uid st' = (history_of uid st)[k := summary_item d]"
proof -
  from getDailySummary_InrD [OF assms] obtain i d idx where
    all: "findOne (entries_date_between (startOfDay tz t) (endOfDay tz t) uid) (diaries st)
             = Some (i, d)
         \<and> existingSummaryIndex (diaries st)
              (\<lambda>e. toDateString tz (date e) = toDateString tz t) (history_of uid st) = Inr idx
         \<and> r = summary_answer t d
         \<and> history_of uid st' =
             (case idx of
                Some k \<Rightarrow> (history_of uid st)[k := summary_item d]
              | None \<Rightarrow> history_of uid st @ [summary_item d])"
    by (elim exE) (rule that)
  show thesis
  proof (rule that [of i d idx])
    show "findOne (entries_date_between (startOfDay tz t) (endOfDay tz t) uid) (diaries st)
       = Some (i, d)"
      using all by simp
    show "existingSummaryIndex (diaries st)
           (\<lambda>e. toDateString tz (date e) = toDateString tz t) (history_of uid st) = Inr idx"
      using all by simp
    show "r = summary_answer t d"
      using all by simp
    show "idx = None \<Longrightarrow> history_of uid st' = history_of uid st @ [summary_item d]"
      using all by simp
    show "\<And>k. idx = Some k \<Longrightarrow> history_of uid st' = (history_of uid st)[k := summary_item d]"
      using all by simp
  qed
qed

lemmas eval_defs =
  getDailySummary_def Let_def findOne_def entries_date_between_def startOfDay_def endOfDay_def
  toDateString_def toFixed2_def hundredths_def digit_def Number_of_fixed_def

lemma example_summary_day0:
  "getDailySummary 0 0 1 example_store =
     Inr (\<lparr>r_date = 0, r_daily_left = 2330, r_daily_consumed = 470, r_daily_rate = 2800,
            r_percentage = ''16.79''\<rparr>, example_store_summarised)"
  by (simp add: eval_defs example_store_def example_store_summarised_def)

lemma example_summary_day5:
  "getDailySummary 0 432000000 1 example_store_summarised =
     Inr (\<lparr>r_date = 432000000, r_daily_left = 2330, r_daily_consumed = 470, r_daily_rate = 2800,
            r_percentage = ''16.79''\<rparr>, example_store_summarised)"
  by (simp add: eval_defs example_store_def example_store_summarised_def)

lemma example_summary_over:
  "getDailySummary 0 0 1 example_store_over =
     Inr (\<lparr>r_date = 0, r_daily_left = - 620, r_daily_consumed = 3420, r_daily_rate = 2800,
            r_percentage = ''122.14''\<rparr>,
          example_store_over\<lparr>summaries := [\<lparr>summary_userId = 1, summaryInfo =
            [\<lparr>diaryId = 0, daily_left = - 620, daily_consumed = 3420, daily_rate = 2800,
               percentage = 12214 / 100\<rparr>]\<rparr>]\<rparr>)"
  by (simp add: eval_defs example_store_over_def)

text \<open>
  C7. Every answer of the summary route, and the record stored with it, has
  \<open>daily_left = daily_rate - daily_consumed\<close>, hence
  \<open>daily_consumed + daily_left = daily_rate\<close> (numbers are exact here). \<open>daily_left\<close> is
  negative exactly when more than the rate was consumed, and the answer is an answer all
  the same.
\<close>

theorem daily_left_is_rate_minus_consumed:
  assumes "getDailySummary tz t uid st = Inr (r, st')"
  shows "r_daily_left r = r_daily_rate r - r_daily_consumed r
       \<and> r_daily_consumed r + r_daily_left r = r_daily_rate r
       \<and> (r_daily_left r < 0 \<longleftrightarrow> r_daily_rate r < r_daily_consumed r)
       \<and> list_ex (\<lambda>x. daily_left x = r_daily_left r \<and> daily_consumed x = r_daily_consumed r
                      \<and> daily_rate x = r_daily_rate r
                      \<and> daily_left x = daily_rate x - daily_consumed x
                      \<and> daily_consumed x + daily_left x = daily_rate x)
            (history_of uid st')"
proof (rule getDailySummary_InrE [OF assms])
  fix i d idx
  assume idx: "existingSummaryIndex (diaries st)
              (\<lambda>e. toDateString tz (date e) = toDateString tz t) (history_of uid st) = Inr idx"
    and r: "r = summary_answer t d"
    and app: "idx = None \<Longrightarrow> history_of uid st' = history_of uid st @ [summary_item d]"
    and upd: "\<And>k. idx = Some k \<Longrightarrow> history_of uid st' = (history_of uid st)[k := summary_item d]"
  have "summary_item d \<in> set (history_of uid st')"
  proof (cases idx)
    case None
    then show ?thesis by (simp add: app)
  next
    case (Some k)
    with idx have "k < length (history_of uid st)"
      by (simp add: existingSummaryIndex_SomeD)
    then show ?thesis
      by (simp add: upd [OF Some] set_update_memI)
  qed
  then have "list_ex (\<lambda>x. daily_left x = r_daily_left r \<and> daily_consumed x = r_daily_consumed r
                      \<and> daily_rate x = r_daily_rate r
                      \<and> daily_left x = daily_rate x - daily_consumed x
                      \<and> daily_consumed x + daily_left x = daily_rate x)
            (history_of uid st')"
    unfolding list_ex_iff
    by (rule bexI [rotated]) (simp add: r summary_item_def summary_answer_def)
  then show ?thesis
    by (simp add: r summary_answer_def)
qed

text \<open>A diary of 3420 kcal: the route answers with \<open>daily_left = - 620\<close>.\<close>

theorem daily_left_negative_witness:
  "getDailySummary 0 0 1 example_store_over =
     Inr (\<lparr>r_date = 0, r_daily_left = - 620, r_daily_consumed = 3420, r_daily_rate = 2800,
            r_percentage = ''122.14''\<rparr>,
          example_store_over\<lparr>summaries := [\<lparr>summary_userId = 1, summaryInfo =
            [\<lparr>diaryId = 0, daily_left = - 620, daily_consumed = 3420, daily_rate = 2800,
               percentage = 12214 / 100\<rparr>]\<rparr>]\<rparr>)
   \<and> (- 620 :: real) = 2800 - 3420 \<and> (3420 :: real) + (- 620) = 2800 \<and> (- 620 :: real) < 0"
  using daily_left_is_rate_minus_consumed [OF example_summary_over] example_summary_over
  by simp

text \<open>
  C5, as the handler does it. After a successful request the history is the old one with
  the first record whose diary has an entry on the requested calendar day overwritten
  (its diary reference and its four numbers), or, when no record refers to such a diary,
  with a new record appended. All other records stay as they were.
\<close>

theorem summary_history_upsert:
  assumes "getDailySummary tz t uid st = Inr (r, st')"
  shows "\<exists>i d.
           findOne (entries_date_between (startOfDay tz t) (endOfDay tz t) uid) (diaries st)
             = Some (i, d)
         \<and> ((\<exists>k. k < length (history_of uid st)
                 \<and> refers_to_day tz t st (history_of uid st ! k)
                 \<and> (\<forall>j<k. \<not> refers_to_day tz t st (history_of uid st ! j))
                 \<and> history_of uid st' = (history_of uid st)[k := summary_item d])
             \<or> ((\<forall>x\<in>set (history_of uid st). \<not> refers_to_day tz t st x)
                 \<and> history_of uid st' = history_of uid st @ [summary_item d]))
         \<and> diaryId (summary_item d) = diary_id d
         \<and> daily_left (summary_item d) = r_daily_left r
         \<and> daily_consumed (summary_item d) = r_daily_consumed r
         \<and> daily_rate (summary_item d) = r_daily_rate r
         \<and> percentage (summary_item d)
             = Number_of_fixed ((r_daily_consumed r / r_daily_rate r) * 100)"
proof (rule getDailySummary_InrE [OF assms])
  fix i d idx
  assume found: "findOne (entries_date_between (startOfDay tz t) (endOfDay tz t) uid)
      (diaries st) = Some (i, d)"
    and idx: "existingSummaryIndex (diaries st)
              (\<lambda>e. toDateString tz (date e) = toDateString tz t) (history_of uid st) = Inr idx"
    and r: "r = summary_answer t d"
    and app: "idx = None \<Longrightarrow> history_of uid st' = history_of uid st @ [summary_item d]"
    and upd: "\<And>k. idx = Some k \<Longrightarrow> history_of uid st' = (history_of uid st)[k := summary_item d]"
  have fields: "diaryId (summary_item d) = diary_id d
         \<and> daily_left (summary_item d) = r_daily_left r
         \<and> daily_consumed (summary_item d) = r_daily_consumed r
         \<and> daily_rate (summary_item d) = r_daily_rate r
         \<and> percentage (summary_item d)
             = Number_of_fixed ((r_daily_consumed r / r_daily_rate r) * 100)"
    by (simp add: r summary_item_def summary_answer_def)
  have "(\<exists>k. k < length (history_of uid st)
                 \<and> refers_to_day tz t st (history_of uid st ! k)
                 \<and> (\<forall>j<k. \<not> refers_to_day tz t st (history_of uid st ! j))
                 \<and> history_of uid st' = (history_of uid st)[k := summary_item d])
             \<or> ((\<forall>x\<in>set (history_of uid st). \<not> refers_to_day tz t st x)
                 \<and> history_of uid st' = history_of uid st @ [summary_item d])"
  proof (cases idx)
    case None
    with idx have "\<forall>x\<in>set (history_of uid st). \<not> refers_to_day tz t st x"
      by (simp add: existingSummaryIndex_NoneD)
    with app [OF None] show ?thesis by simp
  next
    case (Some k)
    with idx have "k < length (history_of uid st)
        \<and> refers_to_day tz t st (history_of uid st ! k)
        \<and> (\<forall>j<k. \<not> refers_to_day tz t st (history_of uid st ! j))"
      by (simp add: existingSummaryIndex_SomeD)
    with upd [OF Some] show ?thesis by blast
  qed
  with found fields show ?thesis by blast
qed

text \<open>
  The second summary of the example below: the history has one record, it refers to the
  requested day, and it is overwritten.
\<close>

theorem summary_history_overwrite_witness:
  "getDailySummary 0 432000000 1 example_store_summarised =
     Inr (\<lparr>r_date = 432000000, r_daily_left = 2330, r_daily_consumed = 470, r_daily_rate = 2800,
            r_percentage = ''16.79''\<rparr>, example_store_summarised)
   \<and> refers_to_day 0 432000000 example_store_summarised
        (history_of 1 example_store_summarised ! 0)
   \<and> history_of 1 example_store_summarised =
       [\<lparr>diaryId = 0, daily_left = 2330, daily_consumed = 470, daily_rate = 2800,
          percentage = 1679 / 100\<rparr>]"
proof -
  have h: "history_of 1 example_store_summarised =
       [\<lparr>diaryId = 0, daily_left = 2330, daily_consumed = 470, daily_rate = 2800,
          percentage = 1679 / 100\<rparr>]"
    by (simp add: history_of_def findOne_def example_store_summarised_def)
  have "refers_to_day 0 432000000 example_store_summarised
        (history_of 1 example_store_summarised ! 0)"
    using summary_history_upsert [OF example_summary_day5]
  proof (elim exE conjE disjE)
    fix k
    assume "k < length (history_of 1 example_store_summarised)"
      and "refers_to_day 0 432000000 example_store_summarised
             (history_of 1 example_store_summarised ! k)"
    moreover from this(1) have "k = 0"
      unfolding h by simp
    ultimately show ?thesis by simp
  next
    fix d
    assume "history_of 1 example_store_summarised
              = history_of 1 example_store_summarised @ [summary_item d]"
    then show ?thesis by simp
  qed
  with h example_summary_day5 show ?thesis by simp
qed

text \<open>
  The diary of user 1 has an entry on 1970-01-01 and one on 1970-01-06. The summaries of
  these two days are both answered, and the history then holds one record: the records
  of a user all refer to the user's one diary, so the second summary overwrites the
  record of the first. Distinct days do not each get a record.
\<close>

theorem summary_history_one_record_counterexample:
  "getDailySummary 0 0 1 example_store =
     Inr (\<lparr>r_date = 0, r_daily_left = 2330, r_daily_consumed = 470, r_daily_rate = 2800,
            r_percentage = ''16.79''\<rparr>, example_store_summarised)
   \<and> getDailySummary 0 432000000 1 example_store_summarised =
     Inr (\<lparr>r_date = 432000000, r_daily_left = 2330, r_daily_consumed = 470, r_daily_rate = 2800,
            r_percentage = ''16.79''\<rparr>, example_store_summarised)
   \<and> toDateString 0 0 \<noteq> toDateString 0 432000000
   \<and> list_ex (\<lambda>e. toDateString 0 (date e) = toDateString 0 0) (entries_of 1 example_store)
   \<and> list_ex (\<lambda>e. toDateString 0 (date e) = toDateString 0 432000000)
        (entries_of 1 example_store)
   \<and> length (history_of 1 example_store_summarised) = 1"
  using example_summary_day0 example_summary_day5
  by (simp add: toDateString_def entries_of_def history_of_def findOne_def example_store_def
      example_store_summarised_def)

text \<open>
  C3. The handler sums the calories of the whole diary. For 1970-01-01 it answers
  470 kcal, the entries of both days, where the entries of the requested day sum to 342.
\<close>

theorem daily_consumed_sums_whole_diary:
  "getDailySummary 0 0 1 example_store =
     Inr (\<lparr>r_date = 0, r_daily_left = 2330, r_daily_consumed = 470, r_daily_rate = 2800,
            r_percentage = ''16.79''\<rparr>, example_store_summarised)
   \<and> total_calories (filter (\<lambda>e. startOfDay 0 0 \<le> date e \<and> date e \<le> endOfDay 0 0)
        (entries_of 1 example_store)) = 342"
  using example_summary_day0
  by (simp add: total_calories_def startOfDay_def endOfDay_def entries_of_def findOne_def
      example_store_def)

text \<open>
  NotFound is the answer exactly when the query for the diary finds none, as it does when
  the user has no diary or a diary without entries.
\<close>

lemma existingSummaryIndex_error:
  "existingSummaryIndex ds P xs = Inl e \<Longrightarrow> e = Unexpected"
  by (induction xs arbitrary: e) (auto split: option.splits if_splits sum.splits)

lemma getDailySummary_NotFound_iff:
  "getDailySummary tz t uid st = Inl NotFound \<longleftrightarrow>
     findOne (entries_date_between (startOfDay tz t) (endOfDay tz t) uid) (diaries st) = None"
proof (cases "findOne (entries_date_between (startOfDay tz t) (endOfDay tz t) uid) (diaries st)")
  case None
  then show ?thesis by (simp add: getDailySummary_def)
next
  case (Some a)
  obtain i d where a: "a = (i, d)" by (cases a)
  have "getDailySummary tz t uid st \<noteq> Inl NotFound"
  proof
    assume nf: "getDailySummary tz t uid st = Inl NotFound"
    then obtain info where "existingSummaryIndex (diaries st)
        (\<lambda>e. toDateString tz (date e) = toDateString tz t) info = Inl NotFound"
      using Some a by (auto simp: getDailySummary_def Let_def split: sum.splits)
    then show False
      by (auto dest: existingSummaryIndex_error)
  qed
  with Some show ?thesis by simp
qed

lemma getDailySummary_no_entries:
  assumes "list_all (\<lambda>d. userId d = uid \<longrightarrow> entries d = []) (diaries st)"
  shows "getDailySummary tz t uid st = Inl NotFound"
proof -
  have "\<forall>d\<in>set (diaries st).
          \<not> entries_date_between (startOfDay tz t) (endOfDay tz t) uid d"
    using assms by (auto simp: list_all_iff entries_date_between_def)
  then show ?thesis
    by (simp add: getDailySummary_NotFound_iff findOne_None_iff)
qed

text \<open>
  C4. Two summaries answered for a day without entries. In a process two hours east of
  UTC, the summary of 1970-01-02 is computed from an entry of 1970-01-01T23:00Z, which is
  not in the UTC day requested but in the local one. In a process at UTC, the summary of
  1970-01-03 is computed from a diary whose entries are of 1970-01-01 and 1970-01-06:
  one is dated after the start of the day and the other before its end.
\<close>

theorem summary_for_empty_utc_day:
  "\<not> list_ex (\<lambda>e. utc_midnight 86400000 \<le> date e \<and> date e \<le> utc_midnight 86400000 + 86399999)
        (entries_of 1 example_store_late)
   \<and> getDailySummary 7200000 86400000 1 example_store_late =
       Inr (\<lparr>r_date = 86400000, r_daily_left = 2458, r_daily_consumed = 342,
              r_daily_rate = 2800, r_percentage = ''12.21''\<rparr>,
            example_store_late\<lparr>summaries := [\<lparr>summary_userId = 1, summaryInfo =
              [\<lparr>diaryId = 0, daily_left = 2458, daily_consumed = 342, daily_rate = 2800,
                 percentage = 1221 / 100\<rparr>]\<rparr>]\<rparr>)
   \<and> \<not> list_ex (\<lambda>e. utc_midnight 172800000 \<le> date e
                      \<and> date e \<le> utc_midnight 172800000 + 86399999)
        (entries_of 1 example_store)
   \<and> getDailySummary 0 172800000 1 example_store =
       Inr (\<lparr>r_date = 172800000, r_daily_left = 2330, r_daily_consumed = 470,
              r_daily_rate = 2800, r_percentage = ''16.79''\<rparr>,
            example_store\<lparr>summaries := [\<lparr>summary_userId = 1, summaryInfo =
              [\<lparr>diaryId = 0, daily_left = 2330, daily_consumed = 470, daily_rate = 2800,
                 percentage = 1679 / 100\<rparr>]\<rparr>]\<rparr>)"
  by (simp add: eval_defs utc_midnight_def entries_of_def example_store_def
      example_store_late_def)

text \<open>
  The percentage of an answer is the \<^verbatim>\<open>toFixed(2)\<close> string of the quotient; the number
  it denotes, which the stored record holds, is within half a hundredth of the quotient.
\<close>

lemma summary_percentage:
  assumes "getDailySummary tz t uid st = Inr (r, st')"
  shows "r_percentage r = toFixed2 ((r_daily_consumed r / r_daily_rate r) * 100)"
proof (rule getDailySummary_InrE [OF assms])
  fix d
  assume "r = summary_answer t d"
  then show ?thesis by (simp add: summary_answer_def)
qed

lemma Number_of_fixed_near: "\<bar>Number_of_fixed x - x\<bar> \<le> 1 / 200"
proof -
  define h where "h = real (hundredths x)"
  have h: "\<bar>x\<bar> * 100 - 1 / 2 \<le> h" "h \<le> \<bar>x\<bar> * 100 + 1 / 2"
    unfolding h_def hundredths_def by linarith+
  show ?thesis
  proof (cases "x < 0")
    case True
    then have "Number_of_fixed x = - h / 100"
      by (simp add: Number_of_fixed_def h_def)
    with True h show ?thesis by linarith
  next
    case False
    then have "Number_of_fixed x = h / 100"
      by (simp add: Number_of_fixed_def h_def)
    with False h show ?thesis by linarith
  qed
qed

text \<open>
  C8. The answer carries \<open>percentage\<close> as the string \<^verbatim>\<open>toFixed(2)\<close> returns, here
  \<open>''18.32''\<close> for 513 kcal of 2800; the stored record holds the number 18.32.
\<close>

theorem percentage_is_a_string:
  "getDailySummary 0 0 1 store_after_first =
     Inr (\<lparr>r_date = 0, r_daily_left = 2287, r_daily_consumed = 513, r_daily_rate = 2800,
            r_percentage = ''18.32''\<rparr>,
          store_after_first\<lparr>summaries := [\<lparr>summary_userId = 1, summaryInfo =
            [\<lparr>diaryId = 0, daily_left = 2287, daily_consumed = 513, daily_rate = 2800,
               percentage = 1832 / 100\<rparr>]\<rparr>]\<rparr>)"
  by (simp add: eval_defs store_after_first_def)

section \<open>The day of an entry on the write path and on the read paths\<close>

text \<open>
  In a process at UTC the local day is the UTC day, and the bounds of date-fns are those of
  the UTC day.
\<close>

lemma toDateString_utc: "toDateString 0 t = isoDate t"
  by (simp add: toDateString_def isoDate_def)

lemma startOfDay_utc: "startOfDay 0 t = utc_midnight t"
  by (simp add: startOfDay_def utc_midnight_def)

lemma endOfDay_utc: "endOfDay 0 t = utc_midnight t + 86399999"
  by (simp add: endOfDay_def startOfDay_utc)

text \<open>
  C2. In a process two hours east of UTC, a consumption is logged at
  1970-01-02T23:59Z. The write path compares ISO dates, so for it the entry is one of
  the UTC day 1970-01-02. The list of 1970-01-02 is empty and its summary is NotFound:
  both read the entry as one of the local day 1970-01-03. At UTC the list of 1970-01-02
  has the entry, and a removal requested for 1970-01-01 removes it.
\<close>

theorem write_and_read_days_differ:
  "logConsumption example_products 172740000 1 (Some 2) (Some 150) empty_store =
     Inr (diaries example_store_2359 ! 0, example_store_2359)
   \<and> isoDate 172740000 = isoDate 86400000
   \<and> listConsumption 7200000 86400000 1 example_store_2359 = []
   \<and> getDailySummary 7200000 86400000 1 example_store_2359 = Inl NotFound
   \<and> listConsumption 0 86400000 1 example_store_2359 = entries (diaries example_store_2359 ! 0)
   \<and> removeConsumption 0 1 1 example_store_2359 =
       Inr (\<lparr>diary_id = 0, userId = 1, entries = []\<rparr>,
            example_store_2359\<lparr>diaries := [\<lparr>diary_id = 0, userId = 1, entries = []\<rparr>]\<rparr>)"
  by (simp add: eval_defs logConsumption_def upsert_entry_eq listConsumption_def
      removeConsumption_def utc_midnight_def isoDate_def example_products_def empty_store_def
      example_store_2359_def)

end
